theory Spec2Isabelle
  imports Main
begin

section \<open>Python values and exceptions\<close>

text \<open>
  The exceptions the modelled code can raise: the three classes of \<^verbatim>\<open>error.py\<close> and the
  built-in exceptions that the interpreter raises on a failed name, attribute or item
  lookup, on a call of a non-callable value and on a division by zero.
\<close>

datatype error =
    LogosPermissionError
  | LogosSerializationError
  | LogosStatusError
  | ValueError
  | AttributeError
  | NameError
  | TypeError
  | KeyError
  | ZeroDivisionError

text \<open>
  Python values: those that \<^verbatim>\<open>json.loads\<close> produces (floats left out) and byte
  strings; a dict is an association list with string keys.
\<close>

datatype pyval =
    PNone
  | PBool bool
  | PInt int
  | PStr string
  | PBytes string
  | PList "pyval list"
  | PDict "(string \<times> pyval) list"

section \<open>functiontools.py\<close>

text \<open>
  The functions are modelled from their bodies, with the names that the module binds as
  it is written.

  \<^verbatim>\<open>check_data(data, keys)\<close> returns \<^verbatim>\<open>True\<close> when \<^verbatim>\<open>data\<close> is a dict holding every key.
  Otherwise it reaches one of its two statements \<^verbatim>\<open>raise LogosSerializationError(...)\<close>.
  functiontools.py neither defines nor imports the name \<^verbatim>\<open>LogosSerializationError\<close> (it
  is a class of error.py, and no built-in), so evaluating the name raises \<^verbatim>\<open>NameError\<close>
  before any exception object is built.
\<close>

fun check_data :: "pyval \<Rightarrow> string list \<Rightarrow> error + bool" where
  "check_data (PDict kvs) keys =
     (if \<not> list_all (\<lambda>key. key \<in> set (map fst kvs)) keys
      then Inl NameError
      else Inr True)"
| "check_data _ keys = Inl NameError"

text \<open>
  \<^verbatim>\<open>check_switch(panel, switch)\<close> is \<^verbatim>\<open>panel // switch % 2 == 1\<close>. Python's \<^verbatim>\<open>//\<close> and
  \<^verbatim>\<open>%\<close> on integers are floor division and its remainder, as \<open>div\<close> and \<open>mod\<close> on
  \<open>int\<close> are; a zero divisor raises.
\<close>

definition check_switch :: "int \<Rightarrow> int \<Rightarrow> error + bool" where
  "check_switch panel switch =
     (if switch = 0 then Inl ZeroDivisionError
      else Inr (panel div switch mod 2 = 1))"

section \<open>datamodel.py\<close>

text \<open>
  \<^verbatim>\<open>now()\<close> is \<^verbatim>\<open>round(time() * 1000)\<close>, a reading of the wall clock. Every function
  that calls it takes the reading as its first argument \<open>now\<close>, one argument for each
  call of \<^verbatim>\<open>now()\<close> that it makes.

  A method that can raise returns the exception, if any, together with the object as
  the method left it: Python keeps the assignments made before the raise.
\<close>

type_synonym 's outcome = "error option \<times> 's"

subsection \<open>LogosUpdateable\<close>

record LogosUpdateable =
  last_update :: int
  version :: int

definition LogosUpdateable_init :: LogosUpdateable where
  "LogosUpdateable_init = \<lparr>last_update = 0, version = 0\<rparr>"

definition is_ready :: "'a LogosUpdateable_scheme \<Rightarrow> bool" where
  "is_ready self = (last_update self > 0)"

definition LogosUpdateable_on_data_received ::
  "int \<Rightarrow> 'd \<Rightarrow> int \<Rightarrow> 'a LogosUpdateable_scheme \<Rightarrow> 'a LogosUpdateable_scheme" where
  "LogosUpdateable_on_data_received now data ver self =
     self\<lparr>last_update := now, version := ver\<rparr>"

definition LogosUpdateable_on_update ::
  "int \<Rightarrow> 'a LogosUpdateable_scheme \<Rightarrow> 'a LogosUpdateable_scheme" where
  "LogosUpdateable_on_update now self = self\<lparr>last_update := now\<rparr>"

text \<open>A run of snapshot applications, each with its clock reading, payload and version.\<close>

fun receive_all ::
  "(int \<times> 'd \<times> int) list \<Rightarrow> 'a LogosUpdateable_scheme \<Rightarrow> 'a LogosUpdateable_scheme" where
  "receive_all [] self = self"
| "receive_all ((now, data, ver) # rest) self =
     receive_all rest (LogosUpdateable_on_data_received now data ver self)"

subsection \<open>LogosLocallyCangeable\<close>

record LogosLocallyCangeable = LogosUpdateable +
  is_changed :: bool

definition LogosLocallyCangeable_init :: LogosLocallyCangeable where
  "LogosLocallyCangeable_init = \<lparr>last_update = 0, version = 0, is_changed = False\<rparr>"

definition LogosLocallyCangeable_on_data_received ::
  "int \<Rightarrow> 'd \<Rightarrow> int \<Rightarrow> 'a LogosLocallyCangeable_scheme \<Rightarrow> 'a LogosLocallyCangeable_scheme" where
  "LogosLocallyCangeable_on_data_received now data ver self =
     (LogosUpdateable_on_data_received now data ver self)\<lparr>is_changed := False\<rparr>"

definition LogosLocallyCangeable_on_update ::
  "int \<Rightarrow> 'a LogosLocallyCangeable_scheme \<Rightarrow> 'a LogosLocallyCangeable_scheme" where
  "LogosLocallyCangeable_on_update now self =
     (LogosUpdateable_on_update now self)\<lparr>is_changed := True\<rparr>"

text \<open>
  \<^verbatim>\<open>super().NAME()\<close> in a subclass of \<^verbatim>\<open>LogosLocallyCangeable\<close>: the attribute is looked
  up in \<^verbatim>\<open>LogosLocallyCangeable\<close> and \<^verbatim>\<open>LogosUpdateable\<close> and then called without
  arguments. \<^verbatim>\<open>on_update\<close> runs; the abstract \<^verbatim>\<open>to_json_dict\<close> has an empty body;
  \<^verbatim>\<open>on_data_received\<close> lacks its two arguments and the properties give a \<^verbatim>\<open>bool\<close> or an
  \<^verbatim>\<open>int\<close>, which cannot be called; any other name is found in neither class. (The
  double-underscore attributes of \<^verbatim>\<open>object\<close> are left out.)
\<close>

definition super_call ::
  "string \<Rightarrow> error + (int \<Rightarrow> 'a LogosLocallyCangeable_scheme \<Rightarrow> 'a LogosLocallyCangeable_scheme)" where
  "super_call name =
     (if name = ''on_update'' then Inr LogosLocallyCangeable_on_update
      else if name = ''to_json_dict'' then Inr (\<lambda>now self. self)
      else if name \<in> set [''on_data_received'', ''is_changed'', ''last_update'',
                            ''version'', ''is_ready'']
      then Inl TypeError
      else Inl AttributeError)"

text \<open>Calling a \<^verbatim>\<open>bool\<close>, as in \<^verbatim>\<open>b()\<close>: a \<^verbatim>\<open>bool\<close> is not callable.\<close>

definition call_bool :: "bool \<Rightarrow> error + bool" where
  "call_bool b = Inl TypeError"

subsection \<open>LogosUpdateableSingleton\<close>

text \<open>The class-level state of the singleton template; a subclass extends it.\<close>

record LogosUpdateableSingleton =
  cls_last_update :: int
  cls_version :: int

definition LogosUpdateableSingleton_init :: LogosUpdateableSingleton where
  "LogosUpdateableSingleton_init = \<lparr>cls_last_update = 0, cls_version = 0\<rparr>"

definition Singleton_is_ready :: "'a LogosUpdateableSingleton_scheme \<Rightarrow> bool" where
  "Singleton_is_ready cls = (cls_last_update cls > 0)"

definition Singleton_on_data_received ::
  "int \<Rightarrow> 'd \<Rightarrow> int \<Rightarrow> 'a LogosUpdateableSingleton_scheme
     \<Rightarrow> 'a LogosUpdateableSingleton_scheme" where
  "Singleton_on_data_received now data ver cls =
     cls\<lparr>cls_last_update := now, cls_version := ver\<rparr>"

section \<open>security.py\<close>

text \<open>The values of the enumeration \<^verbatim>\<open>LogosPermissionTypes\<close>.\<close>

definition NO_PERMISSION :: int where "NO_PERMISSION = 0"
definition READ :: int where "READ = 1"
definition WRITE :: int where "WRITE = 2"
definition ADMINISTRATE :: int where "ADMINISTRATE = 4"

section \<open>Operations on Python values\<close>

text \<open>
  \<^verbatim>\<open>data[key]\<close> for a string key: a dict gives the value or raises \<^verbatim>\<open>KeyError\<close>; no
  other modelled value can be indexed by a string.
\<close>

fun py_getitem :: "pyval \<Rightarrow> string \<Rightarrow> error + pyval" where
  "py_getitem (PDict kvs) key =
     (case map_of kvs key of None \<Rightarrow> Inl KeyError | Some v \<Rightarrow> Inr v)"
| "py_getitem _ key = Inl TypeError"

text \<open>\<^verbatim>\<open>value.copy()\<close>: lists and dicts have the method, the other values do not.\<close>

fun py_copy :: "pyval \<Rightarrow> error + pyval" where
  "py_copy (PList xs) = Inr (PList xs)"
| "py_copy (PDict kvs) = Inr (PDict kvs)"
| "py_copy _ = Inl AttributeError"

text \<open>\<^verbatim>\<open>i == value\<close> for an integer \<^verbatim>\<open>i\<close>; \<^verbatim>\<open>True\<close> and \<^verbatim>\<open>False\<close> equal 1 and 0.\<close>

fun py_eq_int :: "int \<Rightarrow> pyval \<Rightarrow> bool" where
  "py_eq_int i (PInt j) = (i = j)"
| "py_eq_int i (PBool b) = (i = (if b then 1 else 0))"
| "py_eq_int i _ = False"

text \<open>
  \<^verbatim>\<open>i in container\<close> for an integer \<^verbatim>\<open>i\<close>: a list is searched by equality, a dict by
  its keys (strings here, never equal to an integer), a string accepts only strings on
  the left, and the other values are not iterable.
\<close>

fun py_in :: "int \<Rightarrow> pyval \<Rightarrow> error + bool" where
  "py_in i (PList xs) = Inr (list_ex (py_eq_int i) xs)"
| "py_in i (PDict kvs) = Inr False"
| "py_in i _ = Inl TypeError"

text \<open>\<^verbatim>\<open>container.append(i)\<close>: only a list has the method.\<close>

fun py_append :: "pyval \<Rightarrow> int \<Rightarrow> error + pyval" where
  "py_append (PList xs) i = Inr (PList (xs @ [PInt i]))"
| "py_append _ i = Inl AttributeError"

section \<open>attributes.py\<close>

subsection \<open>Tags\<close>

record Tags = LogosUpdateableSingleton +
  tag_ids :: "int list"

definition Tags_init :: Tags where
  "Tags_init = \<lparr>cls_last_update = 0, cls_version = 0, tag_ids = []\<rparr>"

definition Tags_available :: "Tags \<Rightarrow> int \<Rightarrow> bool" where
  "Tags_available cls tag_id = (tag_id \<in> set (tag_ids cls))"

definition Tags_on_data_received :: "int \<Rightarrow> int list \<Rightarrow> int \<Rightarrow> Tags \<Rightarrow> Tags" where
  "Tags_on_data_received now data ver cls =
     (Singleton_on_data_received now data ver cls)\<lparr>tag_ids := data\<rparr>"

subsection \<open>LogosAttributes\<close>

record LogosAttributes = LogosUpdateable +
  a_tags :: pyval
  a_descriptions :: pyval



subsection \<open>LogosEditableAttributes\<close>

record LogosEditableAttributes = LogosLocallyCangeable +
  ea_tags :: pyval
  ea_descriptions :: pyval

definition LogosEditableAttributes_on_data_received ::
  "int \<Rightarrow> pyval \<Rightarrow> int \<Rightarrow> LogosEditableAttributes \<Rightarrow> LogosEditableAttributes outcome" where
  "LogosEditableAttributes_on_data_received now data ver self =
     (let self1 = LogosLocallyCangeable_on_data_received now data ver self in
      case check_data data [''tags'', ''descriptions''] of
        Inl e \<Rightarrow> (Some e, self1)
      | Inr _ \<Rightarrow>
          (case py_getitem data ''tags'' of
             Inl e \<Rightarrow> (Some e, self1)
           | Inr tv \<Rightarrow>
               (case py_copy tv of
                  Inl e \<Rightarrow> (Some e, self1)
                | Inr tags \<Rightarrow>
                    (let self2 = self1\<lparr>ea_tags := tags\<rparr> in
                     case py_getitem data ''descriptions'' of
                       Inl e \<Rightarrow> (Some e, self2)
                     | Inr dv \<Rightarrow>
                         (case py_copy dv of
                            Inl e \<Rightarrow> (Some e, self2)
                          | Inr ds \<Rightarrow> (None, self2\<lparr>ea_descriptions := ds\<rparr>))))))"

definition LogosEditableAttributes_init ::
  "int \<Rightarrow> pyval \<Rightarrow> int \<Rightarrow> error + LogosEditableAttributes" where
  "LogosEditableAttributes_init now data ver =
     (let self = \<lparr>last_update = 0, version = 0, is_changed = False,
                  ea_tags = PList [], ea_descriptions = PDict []\<rparr> in
      if data \<noteq> PNone
      then (case LogosEditableAttributes_on_data_received now data ver self of
              (Some e, _) \<Rightarrow> Inl e
            | (None, self') \<Rightarrow> Inr self')
      else Inr self)"

text \<open>
  \<^verbatim>\<open>add_tag(new_tag)\<close>, with the class state of \<^verbatim>\<open>Tags\<close> as first argument. Its last
  statement is \<^verbatim>\<open>super().om_update()\<close>.
\<close>

definition add_tag ::
  "Tags \<Rightarrow> int \<Rightarrow> int \<Rightarrow> LogosEditableAttributes \<Rightarrow> LogosEditableAttributes outcome" where
  "add_tag tags_cls now new_tag self =
     (case py_in new_tag (ea_tags self) of
        Inl e \<Rightarrow> (Some e, self)
      | Inr present \<Rightarrow>
          if present then (Some ValueError, self)
          else if \<not> Tags_available tags_cls new_tag then (Some LogosPermissionError, self)
          else (case py_append (ea_tags self) new_tag of
                  Inl e \<Rightarrow> (Some e, self)
                | Inr tags \<Rightarrow>
                    (let self1 = self\<lparr>ea_tags := tags\<rparr> in
                     case super_call ''om_update'' of
                       Inl e \<Rightarrow> (Some e, self1)
                     | Inr method \<Rightarrow> (None, method now self1))))"

text \<open>The property \<^verbatim>\<open>tags\<close>: a copy of the stored tags.\<close>

definition tags :: "LogosEditableAttributes \<Rightarrow> pyval" where
  "tags self = ea_tags self"

section \<open>texts.py\<close>

record Texts = LogosUpdateableSingleton +
  texts_content :: "(string \<times> (string \<times> string) list) list"
  default_value :: string
  language :: string

definition DEFAULT_LANGUAGE :: string where
  "DEFAULT_LANGUAGE = ''en''"

definition Texts_init :: Texts where
  "Texts_init = \<lparr>cls_last_update = 0, cls_version = 0, texts_content = [],
                  default_value = [], language = ''en''\<rparr>"

definition Texts_exists :: "Texts \<Rightarrow> string \<Rightarrow> string \<Rightarrow> bool \<Rightarrow> bool" where
  "Texts_exists cls key lang strict =
     (let result = False;
          lang = (if lang = [] then language cls else lang)
      in if strict
         then (case map_of (texts_content cls) lang of
                 Some catalog \<Rightarrow> key \<in> set (map fst catalog)
               | None \<Rightarrow> result)
         else (case map_of (texts_content cls) lang of
                 Some catalog \<Rightarrow> key \<in> set (map fst catalog)
               | None \<Rightarrow>
                   (case map_of (texts_content cls) DEFAULT_LANGUAGE of
                      Some catalog \<Rightarrow> key \<in> set (map fst catalog)
                    | None \<Rightarrow> result)))"

definition Texts_get :: "Texts \<Rightarrow> string \<Rightarrow> string \<Rightarrow> string" where
  "Texts_get cls key lang =
     (let result = default_value cls;
          lang = (if lang = [] then language cls else lang)
      in case map_of (texts_content cls) lang of
           Some catalog \<Rightarrow>
             (case map_of catalog key of Some text \<Rightarrow> text | None \<Rightarrow> result)
         | None \<Rightarrow>
             (case map_of (texts_content cls) DEFAULT_LANGUAGE of
                Some catalog \<Rightarrow>
                  (case map_of catalog key of Some text \<Rightarrow> text | None \<Rightarrow> result)
              | None \<Rightarrow> result))"

definition Texts_on_data_received ::
  "int \<Rightarrow> (string \<times> (string \<times> string) list) list \<Rightarrow> int \<Rightarrow> Texts \<Rightarrow> Texts" where
  "Texts_on_data_received now data ver cls =
     (Singleton_on_data_received now data ver cls)\<lparr>texts_content := data\<rparr>"

definition set_default_value :: "string \<Rightarrow> Texts \<Rightarrow> Texts" where
  "set_default_value new_value cls = cls\<lparr>default_value := new_value\<rparr>"

definition set_language :: "string \<Rightarrow> Texts \<Rightarrow> Texts" where
  "set_language new_value cls = cls\<lparr>language := new_value\<rparr>"

section \<open>attributes.py: readiness of the registries\<close>

text \<open>
  \<^verbatim>\<open>Tags.is_ready()\<close> is \<^verbatim>\<open>all([super().is_ready(), Texts.is_ready()])\<close>, with the class
  state of \<^verbatim>\<open>Texts\<close> as second argument; \<^verbatim>\<open>Texts\<close> inherits \<^verbatim>\<open>is_ready\<close> from the
  singleton template.
\<close>

definition Tags_is_ready :: "Tags \<Rightarrow> Texts \<Rightarrow> bool" where
  "Tags_is_ready cls texts_cls =
     list_all (\<lambda>b. b) [Singleton_is_ready cls, Singleton_is_ready texts_cls]"

record Descriptions = LogosUpdateableSingleton +
  description_structure :: "(int \<times> int list) list"

definition Descriptions_init :: Descriptions where
  "Descriptions_init =
     \<lparr>cls_last_update = 0, cls_version = 0, description_structure = []\<rparr>"

definition Descriptions_on_data_received ::
  "int \<Rightarrow> (int \<times> int list) list \<Rightarrow> int \<Rightarrow> Descriptions \<Rightarrow> Descriptions" where
  "Descriptions_on_data_received now data ver cls =
     (Singleton_on_data_received now data ver cls)\<lparr>description_structure := data\<rparr>"

text \<open>
  \<^verbatim>\<open>Descriptions.is_ready()\<close> is \<^verbatim>\<open>all([super().is_ready(), Tags.is_ready()])\<close>.
\<close>

definition Descriptions_is_ready :: "Descriptions \<Rightarrow> Tags \<Rightarrow> Texts \<Rightarrow> bool" where
  "Descriptions_is_ready cls tags_cls texts_cls =
     list_all (\<lambda>b. b) [Singleton_is_ready cls, Tags_is_ready tags_cls texts_cls]"

section \<open>flow.py\<close>

subsection \<open>LogosFlowObject\<close>

record LogosFlowObject = LogosUpdateable +
  fo_id :: pyval
  fo_name :: pyval
  fo_access_mode :: pyval
  fo_attributes :: "LogosAttributes option"



subsection \<open>LogosLog\<close>

record LogosLog = LogosFlowObject +
  entries :: pyval


subsection \<open>LogosLogContainer\<close>

text \<open>
  The container is a dict with the flag \<^verbatim>\<open>__in_init\<close>; the dict's items are kept in
  insertion order.
\<close>

record LogosLogContainer =
  in_init :: bool
  log_items :: "(string \<times> LogosLog) list"

fun dict_set :: "'k \<Rightarrow> 'v \<Rightarrow> ('k \<times> 'v) list \<Rightarrow> ('k \<times> 'v) list" where
  "dict_set k v [] = [(k, v)]"
| "dict_set k v ((k', v') # rest) =
     (if k = k' then (k, v) # rest else (k', v') # dict_set k v rest)"

definition LogosLogContainer_setitem ::
  "string \<Rightarrow> LogosLog \<Rightarrow> LogosLogContainer \<Rightarrow> LogosLogContainer outcome" where
  "LogosLogContainer_setitem key val self =
     (if \<not> in_init self then (Some LogosPermissionError, self)
      else (None, self\<lparr>log_items := dict_set key val (log_items self)\<rparr>))"

text \<open>
  The loop of the constructor, \<^verbatim>\<open>self[key] = Log(value)\<close> for each item. The right-hand
  side is evaluated first, and no name \<^verbatim>\<open>Log\<close> is bound in flow.py (the class is
  \<^verbatim>\<open>LogosLog\<close>) nor among the built-ins: the first iteration raises \<^verbatim>\<open>NameError\<close>
  before \<^verbatim>\<open>__setitem__\<close> is reached.
\<close>

fun LogosLogContainer_fill ::
  "(string \<times> pyval) list \<Rightarrow> LogosLogContainer \<Rightarrow> error + LogosLogContainer" where
  "LogosLogContainer_fill [] self = Inr self"
| "LogosLogContainer_fill ((key, val) # rest) self = Inl NameError"

text \<open>\<^verbatim>\<open>logs.items()\<close>: only a dict has the method.\<close>

fun py_items :: "pyval \<Rightarrow> error + (string \<times> pyval) list" where
  "py_items (PDict kvs) = Inr kvs"
| "py_items _ = Inl AttributeError"

definition LogosLogContainer_init :: "pyval \<Rightarrow> error + LogosLogContainer" where
  "LogosLogContainer_init logs =
     (let self = \<lparr>in_init = True, log_items = []\<rparr> in
      case (if logs \<noteq> PNone
            then (case py_items logs of
                    Inl e \<Rightarrow> Inl e
                  | Inr kvs \<Rightarrow> LogosLogContainer_fill kvs self)
            else Inr self) of
        Inl e \<Rightarrow> Inl e
      | Inr self' \<Rightarrow> Inr (self'\<lparr>in_init := False\<rparr>))"

subsection \<open>LogosChannel\<close>

record LogosChannel = LogosFlowObject +
  logs :: LogosLogContainer



subsection \<open>LogosLogEntry\<close>

text \<open>\<^verbatim>\<open>str(i)\<close> for an integer: its decimal digits, with a minus sign if negative.\<close>

fun str_nat :: "nat \<Rightarrow> string" where
  "str_nat n =
     (if n < 10 then [char_of (48 + n)]
      else str_nat (n div 10) @ [char_of (48 + n mod 10)])"

declare str_nat.simps [simp del]

definition str_int :: "int \<Rightarrow> string" where
  "str_int i = (if i < 0 then ''-'' @ str_nat (nat (- i)) else str_nat (nat i))"

record LogosLogEntry = LogosLocallyCangeable +
  id_time :: int
  id_user :: string
  le_access_mode :: int
  le_content :: string
  le_attributes :: "LogosEditableAttributes option"
  le_attachments :: pyval
  is_finished :: bool

text \<open>The constructor without data, \<^verbatim>\<open>LogosLogEntry()\<close>.\<close>

definition LogosLogEntry_init :: LogosLogEntry where
  "LogosLogEntry_init =
     \<lparr>last_update = 0, version = 0, is_changed = False, id_time = 0, id_user = [],
      le_access_mode = NO_PERMISSION, le_content = [],
      le_attributes = Some \<lparr>last_update = 0, version = 0, is_changed = False,
                             ea_tags = PList [], ea_descriptions = PDict []\<rparr>,
      le_attachments = PNone, is_finished = False\<rparr>"

text \<open>The property \<^verbatim>\<open>id\<close>, \<^verbatim>\<open>'{}-{}'.format(id_time, id_user)\<close>.\<close>

definition LogosLogEntry_id :: "LogosLogEntry \<Rightarrow> string" where
  "LogosLogEntry_id self = str_int (id_time self) @ ''-'' @ id_user self"

text \<open>
  \<^verbatim>\<open>on_create()\<close>, with the id of the current user (\<^verbatim>\<open>CurrentUser.get_id()\<close>) and the two
  clock readings (for \<^verbatim>\<open>id_time\<close> and in \<^verbatim>\<open>on_update\<close>) as arguments. Its guard is
  \<^verbatim>\<open>super().is_ready()\<close>: \<^verbatim>\<open>is_ready\<close> is a property, so \<^verbatim>\<open>super().is_ready\<close> is already the
  \<^verbatim>\<open>bool\<close>, which the parentheses then call.
\<close>

definition on_create ::
  "string \<Rightarrow> int \<Rightarrow> int \<Rightarrow> LogosLogEntry \<Rightarrow> LogosLogEntry outcome" where
  "on_create user_id now now_update self =
     (case call_bool (is_ready self) of
        Inl e \<Rightarrow> (Some e, self)
      | Inr ready \<Rightarrow>
          if ready then (Some LogosStatusError, self)
          else (None,
                LogosLocallyCangeable_on_update now_update
                  (self\<lparr>id_time := now, id_user := user_id,
                        le_access_mode := READ + WRITE\<rparr>)))"

text \<open>
  \<^verbatim>\<open>value.is_changed\<close> on a value of \<open>pyval\<close>: \<^verbatim>\<open>None\<close>, numbers, strings, lists and dicts
  have no such attribute.
\<close>

definition py_is_changed :: "pyval \<Rightarrow> error + bool" where
  "py_is_changed v = Inl AttributeError"

text \<open>
  The property \<^verbatim>\<open>is_changed\<close> of a log entry, which overrides the inherited one:
  \<^verbatim>\<open>any([super().is_changed, self.attributes.is_changed, self.attachments.is_changed])\<close>.
  The three elements are evaluated in order; \<^verbatim>\<open>attributes\<close> is an editable attribute set
  or \<^verbatim>\<open>None\<close>.
\<close>

definition LogosLogEntry_is_changed :: "LogosLogEntry \<Rightarrow> error + bool" where
  "LogosLogEntry_is_changed self =
     (let own = is_changed self in
      case (case le_attributes self of
              None \<Rightarrow> Inl AttributeError
            | Some attrs \<Rightarrow> Inr (is_changed attrs)) of
        Inl e \<Rightarrow> Inl e
      | Inr attributes_changed \<Rightarrow>
          (case py_is_changed (le_attachments self) of
             Inl e \<Rightarrow> Inl e
           | Inr attachments_changed \<Rightarrow>
               Inr (list_ex (\<lambda>b. b) [own, attributes_changed, attachments_changed])))"

text \<open>
  \<^verbatim>\<open>on_data_received\<close> of a log entry. The record keeps the declared types of the
  fields, so the function is given for snapshots whose \<^verbatim>\<open>id_time\<close> and \<^verbatim>\<open>access_mode\<close>
  are integers, whose \<^verbatim>\<open>id_user\<close> is a string and whose \<^verbatim>\<open>is_finished\<close> is a boolean; on
  any other snapshot that passes the check of the keys the result is \<open>None\<close>, outside
  the model.
\<close>

definition LogosLogEntry_on_data_received ::
  "int \<Rightarrow> pyval \<Rightarrow> int \<Rightarrow> LogosLogEntry \<Rightarrow> LogosLogEntry outcome option" where
  "LogosLogEntry_on_data_received now data ver self =
     (let self1 = LogosLocallyCangeable_on_data_received now data ver self in
      case check_data data [''id_time'', ''id_user'', ''access_mode'', ''attributes'',
                            ''attachments'', ''is_finished''] of
        Inl e \<Rightarrow> Some (Some e, self1)
      | Inr _ \<Rightarrow>
          (case py_getitem data ''id_time'' of
             Inr (PInt t) \<Rightarrow>
               (case py_getitem data ''id_user'' of
                  Inr (PStr u) \<Rightarrow>
                    (case py_getitem data ''access_mode'' of
                       Inr (PInt m) \<Rightarrow>
                         (case py_getitem data ''is_finished'' of
                            Inr (PBool f) \<Rightarrow>
                              Some (None,
                                    self1\<lparr>id_time := t, id_user := u, le_access_mode := m,
                                          le_attributes := None, le_attachments := PNone,
                                          is_finished := f\<rparr>)
                          | _ \<Rightarrow> None)
                     | _ \<Rightarrow> None)
                | _ \<Rightarrow> None)
           | _ \<Rightarrow> None))"

section \<open>networking.py\<close>

text \<open>\<^verbatim>\<open>container[key] = value\<close> for a string key: only a dict accepts it.\<close>

fun py_setitem :: "pyval \<Rightarrow> string \<Rightarrow> pyval \<Rightarrow> error + pyval" where
  "py_setitem (PDict kvs) key v = Inr (PDict (dict_set key v kvs))"
| "py_setitem _ key v = Inl TypeError"

definition get_package_template :: "bool \<Rightarrow> bool \<Rightarrow> pyval" where
  "get_package_template is_response is_micro =
     (if \<not> is_micro then
        (if \<not> is_response
         then PDict [(''PackageType'', PStr ''Logos''),
                     (''PackageVersion'', PList [PInt 0, PInt 0, PInt 1, PStr ''dev'']),
                     (''PackageID'', PStr []),
                     (''Operation'', PStr []),
                     (''Content'', PBytes [])]
         else PDict [(''PackageType'', PStr ''Logos_response''),
                     (''PackageVersion'', PList [PInt 0, PInt 0, PInt 1, PStr ''dev'']),
                     (''PackageID'', PStr []),
                     (''PackageHash'', PBytes []),
                     (''QueryInterval'', PList [PInt 0, PInt 100])])
      else
        (if \<not> is_response
         then PList [PStr [], PStr [], PBytes []]
         else PList [PStr [], PBytes [], PList [PInt 0, PInt 100]]))"

text \<open>
  \<^verbatim>\<open>queue.Queue\<close> of the standard library: \<^verbatim>\<open>Queue(maxsize)\<close> has no bound when \<^verbatim>\<open>maxsize\<close>
  is not positive, and \<^verbatim>\<open>Queue()\<close> is \<^verbatim>\<open>Queue(0)\<close>. \<^verbatim>\<open>put(item)\<close> appends the item; on a
  bounded queue that is full it waits for a free slot, so without a consumer it does not
  return (\<open>None\<close>).
\<close>

record Queue =
  maxsize :: int
  queue :: "pyval list"

definition Queue_init :: "int \<Rightarrow> Queue" where
  "Queue_init capacity = \<lparr>maxsize = capacity, queue = []\<rparr>"

definition Queue_put :: "Queue \<Rightarrow> pyval \<Rightarrow> Queue option" where
  "Queue_put q item =
     (if 0 < maxsize q \<and> maxsize q \<le> int (length (queue q)) then None
      else Some (q\<lparr>queue := queue q @ [item]\<rparr>))"

record Client =
  is_online :: bool
  operation_lists :: "(string \<times> pyval) list"
  package_queue :: Queue
  responses :: "(string \<times> pyval) list"

definition Client_init :: Client where
  "Client_init = \<lparr>is_online = False, operation_lists = [],
                   package_queue = Queue_init 0, responses = []\<rparr>"

text \<open>\<^verbatim>\<open>send\<close>: \<open>None\<close> when the call does not return.\<close>

definition send :: "string \<Rightarrow> string \<Rightarrow> string \<Rightarrow> Client \<Rightarrow> Client outcome option" where
  "send package_id operation content cls =
     (case py_setitem (get_package_template False False) ''PackageID'' (PStr package_id) of
        Inl e \<Rightarrow> Some (Some e, cls)
      | Inr p1 \<Rightarrow>
      (case py_setitem p1 ''Operation'' (PStr operation) of
        Inl e \<Rightarrow> Some (Some e, cls)
      | Inr p2 \<Rightarrow>
      (case py_setitem p2 ''Content'' (PBytes content) of
        Inl e \<Rightarrow> Some (Some e, cls)
      | Inr package \<Rightarrow>
      (case Queue_put (package_queue cls) package of
        None \<Rightarrow> None
      | Some q \<Rightarrow> Some (None, cls\<lparr>package_queue := q\<rparr>)))))"

text \<open>A run of \<^verbatim>\<open>send\<close> calls; it stops at the first call that raises or does not return.\<close>

fun send_all :: "(string \<times> string \<times> string) list \<Rightarrow> Client \<Rightarrow> Client outcome option" where
  "send_all [] cls = Some (None, cls)"
| "send_all ((package_id, operation, content) # rest) cls =
     (case send package_id operation content cls of
        None \<Rightarrow> None
      | Some (Some e, cls') \<Rightarrow> Some (Some e, cls')
      | Some (None, cls') \<Rightarrow> send_all rest cls')"

section \<open>Properties\<close>

subsection \<open>The access-mode bitmask test\<close>

text \<open>
  C10. For a switch that is a power of two, \<open>2 ^ k\<close>, \<^verbatim>\<open>check_switch\<close> returns normally
  and its result is true exactly when bit \<open>k\<close> of the panel is set. The statement holds
  for every integer panel, so in particular for every non-negative one.
\<close>

theorem check_switch_power_of_two:
  "check_switch panel (2 ^ k) = Inr (bit panel k)"
proof -
  have "(panel div 2 ^ k mod 2 = 1) = odd (panel div 2 ^ k)"
    by (simp add: odd_iff_mod_2_eq_one)
  then show ?thesis
    by (simp add: check_switch_def bit_iff_odd)
qed

subsection \<open>Snapshot application on a locally changeable object\<close>

lemma LogosLocallyCangeable_on_data_received_fields:
  "is_changed (LogosLocallyCangeable_on_data_received now data ver self) = False"
  "version (LogosLocallyCangeable_on_data_received now data ver self) = ver"
  "last_update (LogosLocallyCangeable_on_data_received now data ver self) = now"
  by (simp_all add: LogosLocallyCangeable_on_data_received_def
        LogosUpdateable_on_data_received_def)

lemma LogosEditableAttributes_on_data_received_base:
  "is_changed (snd (LogosEditableAttributes_on_data_received now data ver self)) = False"
  "version (snd (LogosEditableAttributes_on_data_received now data ver self)) = ver"
  "last_update (snd (LogosEditableAttributes_on_data_received now data ver self)) = now"
  by (simp_all add: LogosEditableAttributes_on_data_received_def Let_def
        LogosLocallyCangeable_on_data_received_fields split: sum.splits)

lemma map_of_Some_in_keys:
  "map_of kvs k = Some v \<Longrightarrow> k \<in> fst ` set kvs"
  by (metis domI dom_map_of_conv_image_fst)

lemma LogosEditableAttributes_on_data_received_returns:
  assumes "map_of kvs ''tags'' = Some tv" and "py_copy tv = Inr tg"
    and "map_of kvs ''descriptions'' = Some dv" and "py_copy dv = Inr ds"
  shows "LogosEditableAttributes_on_data_received now (PDict kvs) ver self
   = (None, self\<lparr>last_update := now, version := ver, is_changed := False,
                  ea_tags := tg, ea_descriptions := ds\<rparr>)"
proof -
  have "''tags'' \<in> fst ` set kvs" and "''descriptions'' \<in> fst ` set kvs"
    using assms(1,3) by (auto dest: map_of_Some_in_keys)
  then have "check_data (PDict kvs) [''tags'', ''descriptions''] = Inr True"
    by simp
  then show ?thesis
    using assms
    by (simp add: LogosEditableAttributes_on_data_received_def
          LogosLocallyCangeable_on_data_received_def LogosUpdateable_on_data_received_def)
qed

text \<open>
  C1, as the claim states it, fails. The method stores the clock reading without
  comparing it with anything: a snapshot with version 1 applied when the clock reads
  1000, followed by a snapshot with version 2 (not below the current version) applied
  when the wall clock has been set back and reads 900, leaves \<^verbatim>\<open>last_update\<close> below its
  previous value.
\<close>

theorem last_update_can_decrease:
  "version (LogosLocallyCangeable_on_data_received 1000
              (PDict [(''tags'', PList []), (''descriptions'', PDict [])]) 1
              LogosLocallyCangeable_init) \<le> 2
   \<and> last_update
       (LogosLocallyCangeable_on_data_received 900
          (PDict [(''tags'', PList []), (''descriptions'', PDict [])]) 2
          (LogosLocallyCangeable_on_data_received 1000
             (PDict [(''tags'', PList []), (''descriptions'', PDict [])]) 1
             LogosLocallyCangeable_init))
     < last_update
        (LogosLocallyCangeable_on_data_received 1000
           (PDict [(''tags'', PList []), (''descriptions'', PDict [])]) 1
           LogosLocallyCangeable_init)"
  by (simp add: LogosLocallyCangeable_on_data_received_fields)

text \<open>
  C1, amended. \<^verbatim>\<open>LogosLocallyCangeable.on_data_received\<close> with version \<open>ver\<close>, called on
  any extension of the class's state (so also through \<^verbatim>\<open>super()\<close> from a subclass),
  leaves the stored flag \<^verbatim>\<open>is_changed\<close> false, \<^verbatim>\<open>version\<close> equal to \<open>ver\<close> and
  \<^verbatim>\<open>last_update\<close> equal to the clock reading of the call; hence \<^verbatim>\<open>last_update\<close> is
  positive, and not below its previous value, exactly when the clock reading is. For
  an editable attribute set, whose \<^verbatim>\<open>is_changed\<close> is the inherited flag, the same holds
  after its own \<^verbatim>\<open>on_data_received\<close> on every input, and the call returns normally,
  with tags and descriptions replaced, on every dict whose \<^verbatim>\<open>tags\<close> and
  \<^verbatim>\<open>descriptions\<close> fields are lists or dicts.
\<close>

theorem on_data_received_stamps_clock:
  "\<not> is_changed (LogosLocallyCangeable_on_data_received now data ver self)
   \<and> version (LogosLocallyCangeable_on_data_received now data ver self) = ver
   \<and> last_update (LogosLocallyCangeable_on_data_received now data ver self) = now
   \<and> (0 < last_update (LogosLocallyCangeable_on_data_received now data ver self)
        \<longleftrightarrow> 0 < now)
   \<and> (last_update self
          \<le> last_update (LogosLocallyCangeable_on_data_received now data ver self)
        \<longleftrightarrow> last_update self \<le> now)
   \<and> \<not> is_changed (snd (LogosEditableAttributes_on_data_received now data ver attrs))
   \<and> version (snd (LogosEditableAttributes_on_data_received now data ver attrs)) = ver
   \<and> last_update (snd (LogosEditableAttributes_on_data_received now data ver attrs)) = now
   \<and> (map_of kvs ''tags'' = Some tv \<and> py_copy tv = Inr tg
        \<and> map_of kvs ''descriptions'' = Some dv \<and> py_copy dv = Inr ds
      \<longrightarrow> LogosEditableAttributes_on_data_received now (PDict kvs) ver attrs
           = (None, attrs\<lparr>last_update := now, version := ver, is_changed := False,
                           ea_tags := tg, ea_descriptions := ds\<rparr>))"
  by (simp add: LogosLocallyCangeable_on_data_received_fields
        LogosEditableAttributes_on_data_received_base
        LogosEditableAttributes_on_data_received_returns)

theorem on_data_received_stamps_clock_witness:
  "LogosEditableAttributes_on_data_received 1000
     (PDict [(''tags'', PList [PInt 2]), (''descriptions'', PDict [])]) 4
     \<lparr>last_update = 500, version = 3, is_changed = True,
      ea_tags = PList [PInt 7], ea_descriptions = PDict []\<rparr>
   = (None, \<lparr>last_update = 1000, version = 4, is_changed = False,
             ea_tags = PList [PInt 2], ea_descriptions = PDict []\<rparr>)"
  using on_data_received_stamps_clock
    [where kvs = "[(''tags'', PList [PInt 2]), (''descriptions'', PDict [])]"
       and tv = "PList [PInt 2]" and tg = "PList [PInt 2]"
       and dv = "PDict []" and ds = "PDict []" and now = 1000 and ver = 4
       and data = "PDict [(''tags'', PList [PInt 2]), (''descriptions'', PDict [])]"
       and self = LogosLocallyCangeable_init
       and attrs = "\<lparr>last_update = 500, version = 3, is_changed = True,
                      ea_tags = PList [PInt 7], ea_descriptions = PDict []\<rparr>"]
  by simp

text \<open>
  A log entry overrides the property \<^verbatim>\<open>is_changed\<close>. Its attachments are never
  anything but \<^verbatim>\<open>None\<close>, and its \<^verbatim>\<open>on_data_received\<close> sets the attributes to \<^verbatim>\<open>None\<close>
  as well, so reading the property raises \<^verbatim>\<open>AttributeError\<close>, before and after a
  snapshot.
\<close>

lemma LogosLogEntry_is_changed_raises:
  "LogosLogEntry_is_changed self = Inl AttributeError"
  by (simp add: LogosLogEntry_is_changed_def py_is_changed_def split: option.splits)

lemma LogosLogEntry_is_changed_after_snapshot:
  "LogosLogEntry_on_data_received now data ver self = Some (None, self') \<Longrightarrow>
     le_attributes self' = None \<and> LogosLogEntry_is_changed self' = Inl AttributeError"
  by (auto simp: LogosLogEntry_on_data_received_def Let_def LogosLogEntry_is_changed_raises
        split: sum.splits pyval.splits)

lemma LogosLogEntry_on_data_received_example:
  "LogosLogEntry_on_data_received 2000
     (PDict [(''id_time'', PInt 1000), (''id_user'', PStr ''U7''), (''access_mode'', PInt 3),
             (''attributes'', PDict [(''tags'', PList []), (''descriptions'', PDict [])]),
             (''attachments'', PDict []), (''is_finished'', PBool False)]) 1
     LogosLogEntry_init
   = Some (None, LogosLogEntry_init\<lparr>last_update := 2000, version := 1,
        id_time := 1000, id_user := ''U7'', le_access_mode := 3, le_attributes := None\<rparr>)"
  by (simp add: LogosLogEntry_on_data_received_def
        LogosLocallyCangeable_on_data_received_def LogosUpdateable_on_data_received_def
        LogosLogEntry_init_def)

subsection \<open>Snapshots that fail validation\<close>











subsection \<open>Readiness\<close>

lemma receive_all_last_update:
  "snaps \<noteq> [] \<Longrightarrow> last_update (receive_all snaps self) = fst (last snaps)"
proof (induction snaps arbitrary: self)
  case Nil
  then show ?case by simp
next
  case (Cons s rest)
  obtain now data ver where s: "s = (now, data, ver)"
    by (cases s) auto
  show ?case
  proof (cases "rest = []")
    case True
    then show ?thesis
      by (simp add: s LogosUpdateable_on_data_received_def)
  next
    case False
    then show ?thesis
      using Cons.IH [of "LogosUpdateable_on_data_received now data ver self"]
      by (simp add: s)
  qed
qed

lemma Tags_is_ready_iff:
  "Tags_is_ready cls texts_cls \<longleftrightarrow> 0 < cls_last_update cls \<and> 0 < cls_last_update texts_cls"
  by (simp add: Tags_is_ready_def Singleton_is_ready_def)

lemma Descriptions_is_ready_iff:
  "Descriptions_is_ready cls tags_cls texts_cls \<longleftrightarrow>
     0 < cls_last_update cls \<and> 0 < cls_last_update tags_cls \<and> 0 < cls_last_update texts_cls"
  by (simp add: Descriptions_is_ready_def Tags_is_ready_iff Singleton_is_ready_def)

text \<open>
  C8, as the claim states it, fails: a snapshot that carries version 0 (the default
  version of every constructor) makes the object ready while its version is not
  positive.
\<close>

theorem is_ready_not_version_positive:
  "is_ready (LogosUpdateable_on_data_received 1000 (PDict []) 0 LogosUpdateable_init)
     \<noteq> (0 < version
           (LogosUpdateable_on_data_received 1000 (PDict []) 0 LogosUpdateable_init))"
  by (simp add: is_ready_def LogosUpdateable_on_data_received_def LogosUpdateable_init_def)

text \<open>
  C8, amended. No readiness flag looks at the version. The flag of an updateable object
  (no subclass overrides it) and the flag that \<^verbatim>\<open>Texts\<close> inherits from the singleton
  template are \<^verbatim>\<open>last_update > 0\<close>; \<^verbatim>\<open>Tags.is_ready\<close> is that condition for \<^verbatim>\<open>Tags\<close> and
  for \<^verbatim>\<open>Texts\<close> together, and \<^verbatim>\<open>Descriptions.is_ready\<close> that condition for
  \<^verbatim>\<open>Descriptions\<close>, \<^verbatim>\<open>Tags\<close> and \<^verbatim>\<open>Texts\<close> together. A freshly created object or
  registry is not ready. After any non-empty run of snapshot applications at positive
  clock readings an updateable object is ready, whatever versions the snapshots carry,
  and after one such snapshot \<^verbatim>\<open>Texts\<close> is ready, \<^verbatim>\<open>Tags\<close> is ready exactly when \<^verbatim>\<open>Texts\<close>
  is, and \<^verbatim>\<open>Descriptions\<close> exactly when \<^verbatim>\<open>Tags\<close> is.
\<close>

theorem is_ready_iff_last_update_positive:
  "(is_ready self \<longleftrightarrow> 0 < last_update self)
   \<and> (Singleton_is_ready texts_cls \<longleftrightarrow> 0 < cls_last_update texts_cls)
   \<and> (Tags_is_ready tags_cls texts_cls
        \<longleftrightarrow> 0 < cls_last_update tags_cls \<and> 0 < cls_last_update texts_cls)
   \<and> (Descriptions_is_ready descriptions_cls tags_cls texts_cls
        \<longleftrightarrow> 0 < cls_last_update descriptions_cls \<and> 0 < cls_last_update tags_cls
            \<and> 0 < cls_last_update texts_cls)
   \<and> \<not> is_ready LogosUpdateable_init
   \<and> \<not> Singleton_is_ready Texts_init
   \<and> \<not> Tags_is_ready Tags_init texts_cls
   \<and> \<not> Descriptions_is_ready Descriptions_init tags_cls texts_cls
   \<and> (snaps \<noteq> [] \<and> (\<forall>s \<in> set snaps. 0 < fst s)
        \<longrightarrow> is_ready (receive_all snaps self))
   \<and> (0 < now \<longrightarrow> Singleton_is_ready (Texts_on_data_received now texts ver texts_cls))
   \<and> (0 < now \<longrightarrow>
        Tags_is_ready (Tags_on_data_received now ids ver tags_cls) texts_cls
          = Singleton_is_ready texts_cls)
   \<and> (0 < now \<longrightarrow>
        Descriptions_is_ready
          (Descriptions_on_data_received now table ver descriptions_cls)
          tags_cls texts_cls
          = Tags_is_ready tags_cls texts_cls)"
proof -
  have "is_ready (receive_all snaps self)"
    if "snaps \<noteq> []" and "\<forall>s \<in> set snaps. 0 < fst s"
  proof -
    have "last snaps \<in> set snaps"
      using that(1) by simp
    then have "0 < fst (last snaps)"
      using that(2) by blast
    then show ?thesis
      using that(1) by (simp add: is_ready_def receive_all_last_update)
  qed
  then show ?thesis
    by (simp add: is_ready_def Singleton_is_ready_def LogosUpdateable_init_def
          Tags_is_ready_iff Descriptions_is_ready_iff Texts_init_def Tags_init_def
          Descriptions_init_def Texts_on_data_received_def Tags_on_data_received_def
          Descriptions_on_data_received_def Singleton_on_data_received_def)
qed

theorem is_ready_iff_last_update_positive_witness:
  "is_ready (receive_all [(1000, PNone, 0), (2000, PNone, 0)] LogosUpdateable_init)
   \<and> version (receive_all [(1000, PNone, 0), (2000, PNone, 0)] LogosUpdateable_init) = 0
   \<and> Singleton_is_ready (Texts_on_data_received 1000 [] 0 Texts_init)
   \<and> \<not> Tags_is_ready (Tags_on_data_received 1000 [1, 2, 3] 1 Tags_init) Texts_init
   \<and> Tags_is_ready (Tags_on_data_received 1000 [1, 2, 3] 0 Tags_init)
        (Texts_on_data_received 1000 [] 0 Texts_init)
   \<and> \<not> Descriptions_is_ready (Descriptions_on_data_received 1000 [(1, [2])] 1
          Descriptions_init) Tags_init Texts_init"
  using is_ready_iff_last_update_positive
    [where self = LogosUpdateable_init and texts_cls = Texts_init
       and tags_cls = Tags_init and descriptions_cls = Descriptions_init
       and snaps = "[(1000, PNone, 0), (2000, PNone, 0)]" and now = 1000
       and texts = "[]" and ver = 0 and ids = "[1, 2, 3]" and table = "[(1, [2])]"]
  by (simp add: LogosUpdateable_on_data_received_def LogosUpdateable_init_def
        Tags_is_ready_iff Descriptions_is_ready_iff Texts_init_def Tags_init_def
        Descriptions_init_def Texts_on_data_received_def Tags_on_data_received_def
        Descriptions_on_data_received_def Singleton_on_data_received_def
        Singleton_is_ready_def)

subsection \<open>Adding a tag\<close>

lemma super_call_om_update:
  "super_call ''om_update'' = Inl AttributeError"
  by (simp add: super_call_def)

lemma add_tag_duplicate:
  "py_in new_tag (ea_tags self) = Inr True \<Longrightarrow>
     add_tag tags_cls now new_tag self = (Some ValueError, self)"
  by (simp add: add_tag_def)

lemma add_tag_unregistered:
  "py_in new_tag (ea_tags self) = Inr False \<Longrightarrow> \<not> Tags_available tags_cls new_tag \<Longrightarrow>
     add_tag tags_cls now new_tag self = (Some LogosPermissionError, self)"
  by (simp add: add_tag_def)

lemma add_tag_never_returns:
  "fst (add_tag tags_cls now new_tag self) \<noteq> None"
  by (auto simp: add_tag_def super_call_om_update Let_def split: sum.splits)

text \<open>
  C3. With the registry holding the tags 1, 2 and 3, \<^verbatim>\<open>add_tag(2)\<close> on a fresh
  attribute set (an absent, registered id) does not succeed: it appends the tag and then
  raises \<^verbatim>\<open>AttributeError\<close> at \<^verbatim>\<open>super().om_update()\<close>, so \<^verbatim>\<open>is_changed\<close> stays false.
\<close>

theorem add_tag_registered_raises:
  "add_tag (Tags_on_data_received 500 [1, 2, 3] 1 Tags_init) 1000 2
     \<lparr>last_update = 0, version = 0, is_changed = False,
      ea_tags = PList [], ea_descriptions = PDict []\<rparr>
   = (Some AttributeError,
      \<lparr>last_update = 0, version = 0, is_changed = False,
       ea_tags = PList [PInt 2], ea_descriptions = PDict []\<rparr>)"
  by (simp add: add_tag_def Tags_available_def Tags_on_data_received_def
        Singleton_on_data_received_def Tags_init_def super_call_om_update)

subsection \<open>Creating a log entry\<close>

lemma LogosLogEntry_init_id:
  "LogosLogEntry_id LogosLogEntry_init = ''0-''"
  by code_simp

lemma LogosLogEntry_id_example:
  "LogosLogEntry_id (LogosLogEntry_init\<lparr>id_time := 1000, id_user := ''U7''\<rparr>) = ''1000-U7''"
  by code_simp

lemma on_create_always_raises:
  "on_create user_id now now_update self = (Some TypeError, self)"
  by (simp add: on_create_def call_bool_def)

text \<open>
  C4. With current user id \<^verbatim>\<open>U7\<close> and clock reading 1000, the first \<^verbatim>\<open>on_create()\<close> on a
  freshly constructed entry does not succeed: it raises \<^verbatim>\<open>TypeError\<close> at
  \<^verbatim>\<open>super().is_ready()\<close> and changes nothing, so the entry's id is still \<^verbatim>\<open>0-\<close> and its
  access mode still 0.
\<close>

theorem on_create_first_call_raises:
  "on_create ''U7'' 1000 1000 LogosLogEntry_init = (Some TypeError, LogosLogEntry_init)
   \<and> LogosLogEntry_id LogosLogEntry_init = ''0-''
   \<and> le_access_mode LogosLogEntry_init = 0"
  by (simp add: on_create_def call_bool_def LogosLogEntry_init_id)
     (simp add: LogosLogEntry_init_def NO_PERMISSION_def)

subsection \<open>The log container of a channel\<close>

lemma LogosLogContainer_init_result:
  "LogosLogContainer_init l = Inr c \<Longrightarrow> c = \<lparr>in_init = False, log_items = []\<rparr>"
proof (cases l)
  case (PDict kvs)
  assume "LogosLogContainer_init l = Inr c"
  then show ?thesis
    using PDict by (cases kvs) (auto simp: LogosLogContainer_init_def)
qed (auto simp: LogosLogContainer_init_def)

lemma LogosLogContainer_init_nonempty:
  "LogosLogContainer_init (PDict (kv # kvs)) = Inl NameError"
  by (cases kv) (simp add: LogosLogContainer_init_def)

lemma LogosLogContainer_init_empty:
  "LogosLogContainer_init (PDict []) = Inr \<lparr>in_init = False, log_items = []\<rparr>"
  by (simp add: LogosLogContainer_init_def)

lemma LogosLogContainer_setitem_after_init:
  "LogosLogContainer_init l = Inr c \<Longrightarrow>
   LogosLogContainer_setitem key val c = (Some LogosPermissionError, c)"
  by (drule LogosLogContainer_init_result) (simp add: LogosLogContainer_setitem_def)


subsection \<open>The outbound package queue\<close>

lemma send_unbounded:
  "maxsize (package_queue cls) = 0 \<Longrightarrow>
   send package_id operation content cls =
     Some (None, cls\<lparr>package_queue := (package_queue cls)
       \<lparr>queue := queue (package_queue cls) @
          [PDict [(''PackageType'', PStr ''Logos''),
                  (''PackageVersion'', PList [PInt 0, PInt 0, PInt 1, PStr ''dev'']),
                  (''PackageID'', PStr package_id),
                  (''Operation'', PStr operation),
                  (''Content'', PBytes content)]]\<rparr>\<rparr>)"
  by (simp add: send_def get_package_template_def Queue_put_def)

lemma send_all_unbounded:
  "maxsize (package_queue cls) = 0 \<Longrightarrow>
   send_all msgs cls =
     Some (None, cls\<lparr>package_queue := (package_queue cls)
       \<lparr>queue := queue (package_queue cls) @
          map (\<lambda>(package_id, operation, content).
                 PDict [(''PackageType'', PStr ''Logos''),
                        (''PackageVersion'', PList [PInt 0, PInt 0, PInt 1, PStr ''dev'']),
                        (''PackageID'', PStr package_id),
                        (''Operation'', PStr operation),
                        (''Content'', PBytes content)]) msgs\<rparr>\<rparr>)"
proof (induction msgs arbitrary: cls)
  case Nil
  then show ?case by simp
next
  case (Cons m msgs)
  obtain p ope c where m: "m = (p, ope, c)"
    by (cases m) auto
  show ?case
    using Cons.prems by (simp add: m send_unbounded Cons.IH)
qed

text \<open>
  C6, as the claim states it, fails: 101 calls of \<^verbatim>\<open>send\<close> on the initial client all
  return without an exception, and the queue then holds 101 packages.
\<close>

theorem package_queue_exceeds_100:
  "map_option (\<lambda>r. (fst r, length (queue (package_queue (snd r)))))
     (send_all (replicate 101 (''P1'', ''createLog'', ''x'')) Client_init)
   = Some (None, 101)"
  using send_all_unbounded [of Client_init "replicate 101 (''P1'', ''createLog'', ''x'')"]
  by (simp add: Client_init_def Queue_init_def)

text \<open>
  C6, amended. The outbound package queue has no capacity: from the initial client,
  every run of \<^verbatim>\<open>send\<close> calls returns without blocking and without an exception, and
  the queue then holds exactly one request package for each call, in the order of the
  calls. So the queue grows with every send, and no package is dropped.
\<close>

theorem package_queue_unbounded:
  "send_all msgs Client_init =
     Some (None, Client_init\<lparr>package_queue :=
       \<lparr>maxsize = 0,
        queue = map (\<lambda>(package_id, operation, content).
                 PDict [(''PackageType'', PStr ''Logos''),
                        (''PackageVersion'', PList [PInt 0, PInt 0, PInt 1, PStr ''dev'']),
                        (''PackageID'', PStr package_id),
                        (''Operation'', PStr operation),
                        (''Content'', PBytes content)]) msgs\<rparr>\<rparr>)"
  using send_all_unbounded [of Client_init msgs]
  by (simp add: Client_init_def Queue_init_def)

subsection \<open>Permissive text lookup\<close>

text \<open>
  C9. With an empty German catalog, an English catalog holding the key \<^verbatim>\<open>k\<close> and the
  default value \<^verbatim>\<open>?\<close>, the lookup of \<^verbatim>\<open>k\<close> in German does not fall back to the English
  text: it returns the default value. The fallback is taken only when the requested
  language has no catalog at all.
\<close>

theorem Texts_get_no_fallback_for_missing_key:
  "Texts_get
     (set_default_value ''?''
        (Texts_on_data_received 1000 [(''de'', []), (''en'', [(''k'', ''hello'')])] 1
           Texts_init))
     ''k'' ''de'' = ''?''
   \<and> Texts_get
     (set_default_value ''?''
        (Texts_on_data_received 1000 [(''en'', [(''k'', ''hello'')])] 1 Texts_init))
     ''k'' ''de'' = ''hello''"
  by (simp add: Texts_get_def Texts_on_data_received_def Texts_init_def
        Singleton_on_data_received_def DEFAULT_LANGUAGE_def set_default_value_def)

end
